theory Spec2Isabelle
  imports Main "HOL-Library.Word"
begin

section \<open>GPUcudaMallocAsyncAllocator: the bookkeeping around the CUDA memory pool\<close>

text \<open>
  The theory embeds \<^verbatim>\<open>gpu_cudamallocasync_allocator.cc\<close>. The allocator object is a
  record that every member function takes and returns. The CUDA driver is outside
  the program: what a driver call answers (its \<^verbatim>\<open>cudaError_t\<close> and the address it
  writes) is an argument of the function that makes the call. A \<^verbatim>\<open>CHECK\<close> that fails,
  a \<^verbatim>\<open>ValueOrDie\<close> on an error and an \<^verbatim>\<open>at\<close> on an absent key end the call with a
  value of type \<open>failure\<close>.
\<close>

subsection \<open>Machine types\<close>

text \<open>
  \<^verbatim>\<open>size_t\<close> and \<^verbatim>\<open>void*\<close> are 64 bits wide, \<^verbatim>\<open>int64\<close> is a 64-bit two's complement
  number (read with \<open>sint\<close>), \<^verbatim>\<open>cudaError_t\<close> is a C enumeration whose value 0 is
  \<^verbatim>\<open>cudaSuccess\<close>.
\<close>

type_synonym size_t = "64 word"
type_synonym int64 = "64 word"
type_synonym ptr = "64 word"
type_synonym cudaError_t = "32 word"

abbreviation (input) nullptr :: ptr where
  "nullptr \<equiv> 0"

abbreviation (input) cudaSuccess :: cudaError_t where
  "cudaSuccess \<equiv> 0"

text \<open>\<^verbatim>\<open>std::max(a, b)\<close> on \<^verbatim>\<open>int64\<close>: \<^verbatim>\<open>(a < b) ? b : a\<close>, a signed comparison.\<close>

definition max_int64 :: "int64 \<Rightarrow> int64 \<Rightarrow> int64" where
  "max_int64 a b = (if sint a < sint b then b else a)"

text \<open>
  \<^verbatim>\<open>std::max<std::size_t>(a, b)\<close>: both arguments are converted to \<^verbatim>\<open>size_t\<close>, the
  comparison is unsigned.
\<close>

definition max_size_t :: "size_t \<Rightarrow> size_t \<Rightarrow> size_t" where
  "max_size_t a b = (if unat a < unat b then b else a)"

subsection \<open>The allocator object\<close>

text \<open>
  Modelled from the spec: the header that declares \<^verbatim>\<open>AllocatorStats\<close> is not among
  the sources; the statistics record has the five fields the spec lists, all
  \<^verbatim>\<open>int64\<close> and zero in a fresh record.
\<close>

record AllocatorStats =
  num_allocs :: int64
  bytes_in_use :: int64
  peak_bytes_in_use :: int64
  largest_alloc_size :: int64
  bytes_limit :: int64

definition AllocatorStats_init :: AllocatorStats where
  "AllocatorStats_init =
     \<lparr>num_allocs = 0, bytes_in_use = 0, peak_bytes_in_use = 0,
      largest_alloc_size = 0, bytes_limit = 0\<rparr>"

text \<open>
  What a member function does besides computing, in program order: taking and
  releasing \<^verbatim>\<open>lock_\<close> (\<^verbatim>\<open>mutex_lock l(lock_)\<close> and the end of its scope), calling
  the driver, \<^verbatim>\<open>LOG\<close> at a severity, and assigning to \<^verbatim>\<open>stats_\<close> or \<^verbatim>\<open>size_map_\<close>.
\<close>

datatype driver_call =
  cudaMalloc | cudaFree | cudaDeviceGetAttribute | cudaStreamCreate
  | cudaDeviceGetDefaultMemPool | cudaMemPoolSetAttribute
  | cudaMallocFromPoolAsync | cudaFreeAsync | cudaMemGetInfo

datatype severity = ERROR | FATAL

datatype member = Stats | SizeMap

datatype event = Acquire | Release | Driver driver_call | Log severity | Write member

text \<open>
  The members the bookkeeping uses: \<^verbatim>\<open>stats_\<close>, \<^verbatim>\<open>size_map_\<close> (a hash map from
  addresses to sizes, one entry for a key), and the trace of events.
\<close>

record allocator =
  stats :: AllocatorStats
  size_map :: "ptr \<rightharpoonup> size_t"
  events :: "event list"

definition emit :: "event list \<Rightarrow> allocator \<Rightarrow> allocator" where
  "emit es a = a\<lparr>events := events a @ es\<rparr>"

text \<open>
  How a call ends when it does not return: in a \<^verbatim>\<open>CHECK\<close> or \<^verbatim>\<open>TF_CHECK_OK\<close> that
  fails, in \<^verbatim>\<open>ValueOrDie\<close> on an error status, or in \<^verbatim>\<open>at\<close> on a key the map does
  not hold.
\<close>

datatype failure = CheckFailed | ValueOrDieFailed | OutOfRange

text \<open>
  The first two are fatal: the macro logs at \<^verbatim>\<open>FATAL\<close> and aborts the process. The
  third is the exception \<^verbatim>\<open>std::out_of_range\<close> that \<^verbatim>\<open>at\<close> throws: it leaves the
  member function and reaches the caller, who can catch it.
\<close>

fun fatal :: "failure \<Rightarrow> bool" where
  "fatal CheckFailed = True"
| "fatal ValueOrDieFailed = True"
| "fatal OutOfRange = False"

text \<open>
  The two preprocessor symbols the file branches on. The member functions are
  compiled to their CUDA bodies unless
  \<^verbatim>\<open>CUDA_VERSION < 11020 || !defined(GOOGLE_CUDA)\<close>; the constructor tests
  \<^verbatim>\<open>CUDA_VERSION < 11020\<close> alone.
\<close>

record build_config =
  CUDA_VERSION :: nat
  GOOGLE_CUDA :: bool

definition pool_api :: "build_config \<Rightarrow> bool" where
  "pool_api cfg = (\<not> (CUDA_VERSION cfg < 11020 \<or> \<not> GOOGLE_CUDA cfg))"

subsection \<open>AllocateRaw\<close>

text \<open>
  \<open>drv\<close> is the answer of \<^verbatim>\<open>cudaMallocFromPoolAsync(&rv, num_bytes, pool_, cuda_stream_)\<close>:
  the error code and the address left in \<^verbatim>\<open>rv\<close>. The function takes no lock.
\<close>

definition AllocateRaw ::
  "build_config \<Rightarrow> cudaError_t \<times> ptr \<Rightarrow> size_t \<Rightarrow> size_t \<Rightarrow> allocator \<Rightarrow> allocator \<times> ptr" where
  "AllocateRaw cfg drv alignment num_bytes a =
     (if \<not> pool_api cfg then (a, nullptr)
      else
        let res = fst drv; rv = snd drv;
            a1 = emit [Driver cudaMallocFromPoolAsync] a
        in if res \<noteq> cudaSuccess
           then (emit [Driver cudaMemGetInfo, Log ERROR] a1, nullptr)
           else
             let s0 = stats a1;
                 s1 = s0\<lparr>num_allocs := num_allocs s0 + 1\<rparr>;
                 s2 = s1\<lparr>bytes_in_use := bytes_in_use s1 + num_bytes\<rparr>;
                 s3 = s2\<lparr>peak_bytes_in_use :=
                          max_int64 (peak_bytes_in_use s2) (bytes_in_use s2)\<rparr>;
                 s4 = s3\<lparr>largest_alloc_size :=
                          max_size_t (largest_alloc_size s3) num_bytes\<rparr>;
                 a2 = emit [Write Stats, Write Stats, Write Stats, Write Stats]
                        (a1\<lparr>stats := s4\<rparr>);
                 a3 = emit [Write SizeMap]
                        (a2\<lparr>size_map := (size_map a2)(rv \<mapsto> num_bytes)\<rparr>)
             in (a3, rv))"

subsection \<open>DeallocateRaw\<close>

text \<open>
  \<^verbatim>\<open>size_map_[ptr]\<close>: \<^verbatim>\<open>operator[]\<close> inserts a value-initialised size (zero) under a
  key that is absent and returns the size stored under the key.
\<close>

definition subscript :: "(ptr \<rightharpoonup> size_t) \<Rightarrow> ptr \<Rightarrow> (ptr \<rightharpoonup> size_t) \<times> size_t" where
  "subscript m k = (case m k of None \<Rightarrow> (m(k \<mapsto> 0), 0) | Some v \<Rightarrow> (m, v))"

definition erase :: "(ptr \<rightharpoonup> size_t) \<Rightarrow> ptr \<Rightarrow> (ptr \<rightharpoonup> size_t)" where
  "erase m k = m(k := None)"

text \<open>
  \<open>res\<close> is the answer of \<^verbatim>\<open>cudaFreeAsync(ptr, cuda_stream_)\<close>. The bookkeeping
  follows the \<^verbatim>\<open>if\<close> that logs the failure, outside of it. \<^verbatim>\<open>size_map_[ptr]\<close> writes
  to the map only when it inserts. The function takes no lock.
\<close>

definition DeallocateRaw :: "build_config \<Rightarrow> cudaError_t \<Rightarrow> ptr \<Rightarrow> allocator \<Rightarrow> allocator" where
  "DeallocateRaw cfg res p a =
     (if \<not> pool_api cfg then a
      else
        let a1 = emit [Driver cudaFreeAsync] a;
            a2 = (if res \<noteq> cudaSuccess
                  then emit [Driver cudaMemGetInfo, Log ERROR] a1 else a1);
            found = subscript (size_map a2) p;
            a3 = emit (if size_map a2 p = None then [Write SizeMap] else [])
                   (a2\<lparr>size_map := fst found\<rparr>);
            s0 = stats a3;
            a4 = emit [Write Stats]
                   (a3\<lparr>stats := s0\<lparr>bytes_in_use := bytes_in_use s0 - snd found\<rparr>\<rparr>)
        in emit [Write SizeMap] (a4\<lparr>size_map := erase (size_map a4) p\<rparr>))"

subsection \<open>Size queries and statistics\<close>

definition TracksAllocationSizes :: "allocator \<Rightarrow> bool" where
  "TracksAllocationSizes a = True"

text \<open>
  \<^verbatim>\<open>CHECK(ptr)\<close> logs at \<^verbatim>\<open>FATAL\<close> and aborts the process on a null pointer.
  \<^verbatim>\<open>size_map_.at(ptr)\<close> does not return a size when the key is absent: it throws
  \<^verbatim>\<open>std::out_of_range\<close>, and neither query has a check of its own for that case.
\<close>

definition RequestedSize :: "allocator \<Rightarrow> ptr \<Rightarrow> failure + size_t" where
  "RequestedSize a p =
     (if p = nullptr then Inl CheckFailed
      else case size_map a p of None \<Rightarrow> Inl OutOfRange | Some n \<Rightarrow> Inr n)"

definition AllocatedSize :: "allocator \<Rightarrow> ptr \<Rightarrow> failure + size_t" where
  "AllocatedSize a p =
     (if p = nullptr then Inl CheckFailed
      else case size_map a p of None \<Rightarrow> Inl OutOfRange | Some n \<Rightarrow> Inr n)"

definition GetStats :: "allocator \<Rightarrow> allocator \<times> AllocatorStats option" where
  "GetStats a = (emit [Acquire, Release] a, Some (stats a))"

definition ClearStats :: "allocator \<Rightarrow> allocator" where
  "ClearStats a =
     (let a1 = emit [Acquire] a;
          s0 = stats a1;
          s1 = s0\<lparr>num_allocs := 0\<rparr>;
          s2 = s1\<lparr>peak_bytes_in_use := bytes_in_use s1\<rparr>;
          s3 = s2\<lparr>largest_alloc_size := 0\<rparr>
      in emit [Write Stats, Write Stats, Write Stats, Release] (a1\<lparr>stats := s3\<rparr>))"

subsection \<open>The constructor\<close>

text \<open>
  What the environment answers while the constructor runs: whether
  \<^verbatim>\<open>ExecutorForPlatformGpuId\<close> finds the executor of the device and of device 0
  (\<^verbatim>\<open>ValueOrDie\<close> aborts when it does not), the attribute
  \<^verbatim>\<open>cudaDevAttrMemoryPoolsSupported\<close>, the error codes of the three set-up calls,
  the value of \<^verbatim>\<open>TF_DETERMINISTIC_OPS\<close> (\<open>None\<close> when \<^verbatim>\<open>ReadBoolFromEnvVar\<close> returns
  an error, on which \<^verbatim>\<open>TF_CHECK_OK\<close> aborts), and the driver's answers to the
  allocation and the release of the pre-filling.
\<close>

record ctor_env =
  executor_found :: bool
  executor0_found :: bool
  cuda_malloc_async_supported :: "32 word"
  stream_create :: cudaError_t
  get_default_pool :: cudaError_t
  set_release_threshold :: cudaError_t
  deterministic_ops :: "bool option"
  reserve_malloc :: "cudaError_t \<times> ptr"
  reserve_free :: cudaError_t

definition log_unless_success :: "cudaError_t \<Rightarrow> event list" where
  "log_unless_success cerr = (if cerr \<noteq> cudaSuccess then [Log ERROR] else [])"

text \<open>The part of the constructor under \<^verbatim>\<open>#else\<close> (CUDA 11.2 or later).\<close>

definition configure_pool :: "ctor_env \<Rightarrow> int \<Rightarrow> size_t \<Rightarrow> allocator \<Rightarrow> failure + allocator" where
  "configure_pool env platform_gpu_id pool_size a =
     (if platform_gpu_id > 0 \<and> \<not> executor0_found env then Inl ValueOrDieFailed
      else
        let a1 = (if platform_gpu_id > 0 then emit [Driver cudaMalloc, Driver cudaFree] a else a);
            a2 = emit [Driver cudaDeviceGetAttribute] a1;
            a3 = (if cuda_malloc_async_supported env = 0 then emit [Log ERROR] a2 else a2);
            a4 = emit (Driver cudaStreamCreate # log_unless_success (stream_create env)) a3;
            a5 = emit (Driver cudaDeviceGetDefaultMemPool
                        # log_unless_success (get_default_pool env)) a4;
            a6 = emit [Driver cudaMemPoolSetAttribute] a5;
            a7 = emit [Write Stats] (a6\<lparr>stats := (stats a6)\<lparr>bytes_limit := pool_size\<rparr>\<rparr>);
            a8 = emit (log_unless_success (set_release_threshold env)) a7
        in case deterministic_ops env of
             None \<Rightarrow> Inl CheckFailed
           | Some d \<Rightarrow>
               Inr (if d then emit [Driver cudaMemPoolSetAttribute,
                                    Driver cudaMemPoolSetAttribute] a8
                    else a8))"

text \<open>The pre-filling of the pool: the body of \<^verbatim>\<open>if (reserve_memory)\<close>.\<close>

definition reserve :: "build_config \<Rightarrow> ctor_env \<Rightarrow> size_t \<Rightarrow> allocator \<Rightarrow> allocator" where
  "reserve cfg env pool_size a =
     (let r = AllocateRaw cfg (reserve_malloc env) 0 pool_size a;
          a1 = DeallocateRaw cfg (reserve_free env) (snd r) (fst r)
      in ClearStats a1)"

definition allocator_init :: allocator where
  "allocator_init = \<lparr>stats = AllocatorStats_init, size_map = Map.empty, events = []\<rparr>"

definition GPUcudaMallocAsyncAllocator ::
  "build_config \<Rightarrow> ctor_env \<Rightarrow> int \<Rightarrow> size_t \<Rightarrow> bool \<Rightarrow> failure + allocator" where
  "GPUcudaMallocAsyncAllocator cfg env platform_gpu_id pool_size reserve_memory =
     (if \<not> executor_found env then Inl ValueOrDieFailed
      else
        case (if CUDA_VERSION cfg < 11020 then Inr (emit [Log ERROR] allocator_init)
              else configure_pool env platform_gpu_id pool_size allocator_init) of
          Inl f \<Rightarrow> Inl f
        | Inr a \<Rightarrow> Inr (if reserve_memory then reserve cfg env pool_size a else a))"

subsection \<open>Sequences of calls\<close>

text \<open>
  A call of a member function that changes the object, with the driver's answer
  where the function asks the driver.
\<close>

datatype call =
  Alloc size_t size_t cudaError_t ptr
  | Free ptr cudaError_t
  | Clear
  | Get

fun step :: "build_config \<Rightarrow> call \<Rightarrow> allocator \<Rightarrow> allocator" where
  "step cfg (Alloc alignment num_bytes res rv) a =
     fst (AllocateRaw cfg (res, rv) alignment num_bytes a)"
| "step cfg (Free p res) a = DeallocateRaw cfg res p a"
| "step cfg Clear a = ClearStats a"
| "step cfg Get a = fst (GetStats a)"

fun run :: "build_config \<Rightarrow> call list \<Rightarrow> allocator \<Rightarrow> allocator" where
  "run cfg [] a = a"
| "run cfg (c # cs) a = run cfg cs (step cfg c a)"

text \<open>The values that the calls of \<^verbatim>\<open>AllocateRaw\<close> in a sequence return, in order.\<close>

fun returned :: "build_config \<Rightarrow> call list \<Rightarrow> allocator \<Rightarrow> ptr list" where
  "returned cfg [] a = []"
| "returned cfg (Alloc alignment num_bytes res rv # cs) a =
     snd (AllocateRaw cfg (res, rv) alignment num_bytes a)
       # returned cfg cs (step cfg (Alloc alignment num_bytes res rv) a)"
| "returned cfg (c # cs) a = returned cfg cs (step cfg c a)"

subsection \<open>Notions the properties are stated with\<close>

text \<open>The events a call has added to the object's trace.\<close>

definition issued :: "allocator \<Rightarrow> allocator \<Rightarrow> event list" where
  "issued a a' = drop (length (events a)) (events a')"

text \<open>
  The number of assignments to \<^verbatim>\<open>stats_\<close> and \<^verbatim>\<open>size_map_\<close> in a trace that are made
  while \<^verbatim>\<open>lock_\<close> is not held; \<open>held\<close> says whether the lock is held when the trace
  begins.
\<close>

fun unguarded_writes :: "bool \<Rightarrow> event list \<Rightarrow> nat" where
  "unguarded_writes held [] = 0"
| "unguarded_writes held (Acquire # es) = unguarded_writes True es"
| "unguarded_writes held (Release # es) = unguarded_writes False es"
| "unguarded_writes held (Write m # es) = (if held then 0 else 1) + unguarded_writes held es"
| "unguarded_writes held (Driver d # es) = unguarded_writes held es"
| "unguarded_writes held (Log s # es) = unguarded_writes held es"

text \<open>The number of driver calls in a trace that are made while \<^verbatim>\<open>lock_\<close> is held.\<close>

fun driver_calls_under_lock :: "bool \<Rightarrow> event list \<Rightarrow> nat" where
  "driver_calls_under_lock held [] = 0"
| "driver_calls_under_lock held (Acquire # es) = driver_calls_under_lock True es"
| "driver_calls_under_lock held (Release # es) = driver_calls_under_lock False es"
| "driver_calls_under_lock held (Driver d # es) =
     (if held then 1 else 0) + driver_calls_under_lock held es"
| "driver_calls_under_lock held (Write m # es) = driver_calls_under_lock held es"
| "driver_calls_under_lock held (Log s # es) = driver_calls_under_lock held es"


definition live_bytes :: "(ptr \<rightharpoonup> size_t) \<Rightarrow> nat" where
  "live_bytes m = (\<Sum>p\<in>dom m. unat (the (m p)))"

text \<open>The size recorded for an address, zero for an address that is not tracked.\<close>

definition live_size :: "allocator \<Rightarrow> ptr \<Rightarrow> size_t" where
  "live_size a p = (case size_map a p of None \<Rightarrow> 0 | Some v \<Rightarrow> v)"

text \<open>
  What the bookkeeping expects of the pool. A successful allocation does not
  return an address that is still live with a size other than zero
  (\<open>hands_out_fresh\<close>), and the bytes in use together with the request stay below
  \<open>2 ^ 63\<close>, so that \<^verbatim>\<open>bytes_in_use += num_bytes\<close> does not leave the range of
  \<^verbatim>\<open>int64\<close> (\<open>fits_int64\<close>).
\<close>

fun hands_out_fresh :: "allocator \<Rightarrow> call \<Rightarrow> bool" where
  "hands_out_fresh a (Alloc alignment num_bytes res rv) =
     (if res = cudaSuccess then live_size a rv = 0 else True)"
| "hands_out_fresh a c = True"

fun fits_int64 :: "allocator \<Rightarrow> call \<Rightarrow> bool" where
  "fits_int64 a (Alloc alignment num_bytes res rv) =
     (if res = cudaSuccess
      then live_size a rv = 0 \<and> sint (bytes_in_use (stats a)) + uint num_bytes < 2 ^ 63
      else True)"
| "fits_int64 a c = True"

text \<open>
  The second condition alone: \<^verbatim>\<open>bytes_in_use += num_bytes\<close> of a successful
  allocation stays below \<open>2 ^ 63\<close>, whatever address the pool hands out.
\<close>

fun no_overflow :: "allocator \<Rightarrow> call \<Rightarrow> bool" where
  "no_overflow a (Alloc alignment num_bytes res rv) =
     (if res = cudaSuccess
      then sint (bytes_in_use (stats a)) + uint num_bytes < 2 ^ 63
      else True)"
| "no_overflow a c = True"

text \<open>\<open>along cfg ok cs a\<close>: every call of \<open>cs\<close> is \<open>ok\<close> in the state it is made in.\<close>

fun along :: "build_config \<Rightarrow> (allocator \<Rightarrow> call \<Rightarrow> bool) \<Rightarrow> call list \<Rightarrow> allocator \<Rightarrow> bool" where
  "along cfg ok [] a = True"
| "along cfg ok (c # cs) a = (ok a c \<and> along cfg ok cs (step cfg c a))"

text \<open>
  A call that releases the address \<open>p\<close>, or a successful allocation that returns
  \<open>p\<close> once more.
\<close>

fun touches :: "ptr \<Rightarrow> call \<Rightarrow> bool" where
  "touches p (Alloc alignment num_bytes res rv) = (res = cudaSuccess \<and> rv = p)"
| "touches p (Free q res) = (q = p)"
| "touches p c = False"

text \<open>A call whose pool allocation succeeds.\<close>

fun pool_gives :: "call \<Rightarrow> bool" where
  "pool_gives (Alloc alignment num_bytes res rv) = (res = cudaSuccess)"
| "pool_gives c = False"


text \<open>
  \<open>bytes_in_use\<close>, read as an integer, is at least the number of live bytes and at
  most \<open>peak_bytes_in_use\<close>.
\<close>

definition bounded :: "allocator \<Rightarrow> bool" where
  "bounded a =
     (int (live_bytes (size_map a)) \<le> sint (bytes_in_use (stats a)) \<and>
      sint (bytes_in_use (stats a)) \<le> sint (peak_bytes_in_use (stats a)))"

text \<open>An object with nothing allocated and the four counters at zero.\<close>

definition idle :: "allocator \<Rightarrow> bool" where
  "idle a =
     (size_map a = Map.empty \<and> num_allocs (stats a) = 0 \<and> bytes_in_use (stats a) = 0 \<and>
      peak_bytes_in_use (stats a) = 0 \<and> largest_alloc_size (stats a) = 0)"

subsection \<open>Concrete builds, environments and objects\<close>

definition cuda_11_2 :: build_config where
  "cuda_11_2 = \<lparr>CUDA_VERSION = 11020, GOOGLE_CUDA = True\<rparr>"

definition plain_env :: ctor_env where
  "plain_env =
     \<lparr>executor_found = True, executor0_found = True, cuda_malloc_async_supported = 1,
      stream_create = 0, get_default_pool = 0, set_release_threshold = 0,
      deterministic_ops = Some False, reserve_malloc = (0, 0x7000), reserve_free = 0\<rparr>"

text \<open>
  A device that reports no support for memory pools; every later driver call
  answers \<^verbatim>\<open>cudaErrorNotSupported\<close> (801).
\<close>

definition unsupported_env :: ctor_env where
  "unsupported_env =
     \<lparr>executor_found = True, executor0_found = True, cuda_malloc_async_supported = 0,
      stream_create = 0, get_default_pool = 801, set_release_threshold = 801,
      deterministic_ops = Some False, reserve_malloc = (801, 0), reserve_free = 801\<rparr>"

text \<open>The object after one successful allocation of 1024 bytes at the address \<open>0x1000\<close>.\<close>

definition one_live :: allocator where
  "one_live = fst (AllocateRaw cuda_11_2 (cudaSuccess, 0x1000) 0 1024 allocator_init)"

text \<open>
  The object a constructor call with pre-filling leaves on a device that supports
  memory pools, and the calls of the spec's scenario: allocate 1024 bytes, allocate
  4096 bytes, release the first address, reset the statistics.
\<close>

definition prefilled :: allocator where
  "prefilled =
     (case GPUcudaMallocAsyncAllocator cuda_11_2 plain_env 0 4096 True of
        Inr a \<Rightarrow> a | Inl f \<Rightarrow> allocator_init)"

definition scenario :: "call list" where
  "scenario =
     [Alloc 0 1024 cudaSuccess 0x1000, Alloc 0 4096 cudaSuccess 0x2000,
      Free 0x1000 cudaSuccess, Clear]"

text \<open>
  Two more sequences of calls: one whose first allocation is of \<open>2 ^ 63\<close> bytes, so
  that \<open>bytes_in_use\<close> leaves the range of \<^verbatim>\<open>int64\<close>, and one in which the pool hands
  out the address \<open>0x1000\<close> while the map still tracks it.
\<close>

definition overflowing :: "call list" where
  "overflowing =
     [Alloc 0 0x8000000000000000 cudaSuccess 0x1000, Alloc 0 1 cudaSuccess 0x2000,
      Free 0x1000 cudaSuccess]"

definition rehanded :: "call list" where
  "rehanded = [Alloc 0 100 cudaSuccess 0x1000, Alloc 0 50 cudaSuccess 0x1000]"

text \<open>
  The object a constructor call with pre-filling leaves on the device that reports
  no support, for a pool of 1024 bytes.
\<close>

definition unsupported_device :: allocator where
  "unsupported_device =
     (case GPUcudaMallocAsyncAllocator cuda_11_2 unsupported_env 0 1024 True of
        Inr a \<Rightarrow> a | Inl f \<Rightarrow> allocator_init)"

section \<open>Properties\<close>

subsection \<open>What each member function does to the fields\<close>

lemma stats_emit: "stats (emit es a) = stats a"
  by (simp add: emit_def)

lemma size_map_emit: "size_map (emit es a) = size_map a"
  by (simp add: emit_def)

lemma events_emit: "events (emit es a) = events a @ es"
  by (simp add: emit_def)

lemma issued_append: "events a' = events a @ es \<Longrightarrow> issued a a' = es"
  by (simp add: issued_def)

lemma AllocateRaw_not_compiled:
  "\<not> pool_api cfg \<Longrightarrow> AllocateRaw cfg drv alignment num_bytes a = (a, nullptr)"
  by (simp add: AllocateRaw_def)

lemma AllocateRaw_failure:
  assumes "pool_api cfg" and "fst drv \<noteq> cudaSuccess"
  shows "snd (AllocateRaw cfg drv alignment num_bytes a) = nullptr"
    and "stats (fst (AllocateRaw cfg drv alignment num_bytes a)) = stats a"
    and "size_map (fst (AllocateRaw cfg drv alignment num_bytes a)) = size_map a"
    and "events (fst (AllocateRaw cfg drv alignment num_bytes a)) =
           events a @ [Driver cudaMallocFromPoolAsync, Driver cudaMemGetInfo, Log ERROR]"
  using assms
  by (simp_all add: AllocateRaw_def Let_def stats_emit size_map_emit events_emit)

lemma AllocateRaw_success:
  assumes "pool_api cfg"
  shows "snd (AllocateRaw cfg (cudaSuccess, p) alignment num_bytes a) = p"
    and "stats (fst (AllocateRaw cfg (cudaSuccess, p) alignment num_bytes a)) =
           (stats a)\<lparr>num_allocs := num_allocs (stats a) + 1,
                     bytes_in_use := bytes_in_use (stats a) + num_bytes,
                     peak_bytes_in_use :=
                       max_int64 (peak_bytes_in_use (stats a))
                         (bytes_in_use (stats a) + num_bytes),
                     largest_alloc_size :=
                       max_size_t (largest_alloc_size (stats a)) num_bytes\<rparr>"
    and "size_map (fst (AllocateRaw cfg (cudaSuccess, p) alignment num_bytes a)) =
           (size_map a)(p \<mapsto> num_bytes)"
    and "events (fst (AllocateRaw cfg (cudaSuccess, p) alignment num_bytes a)) =
           events a @ [Driver cudaMallocFromPoolAsync, Write Stats, Write Stats,
                       Write Stats, Write Stats, Write SizeMap]"
  using assms
  by (simp_all add: AllocateRaw_def Let_def stats_emit size_map_emit events_emit)

lemma DeallocateRaw_not_compiled: "\<not> pool_api cfg \<Longrightarrow> DeallocateRaw cfg res p a = a"
  by (simp add: DeallocateRaw_def)

lemma DeallocateRaw_fields:
  assumes "pool_api cfg"
  shows "stats (DeallocateRaw cfg res p a) =
           (stats a)\<lparr>bytes_in_use := bytes_in_use (stats a) - live_size a p\<rparr>"
    and "size_map (DeallocateRaw cfg res p a) = (size_map a)(p := None)"
    and "events (DeallocateRaw cfg res p a) =
           events a @ Driver cudaFreeAsync
             # (if res \<noteq> cudaSuccess then [Driver cudaMemGetInfo, Log ERROR] else [])
             @ (if size_map a p = None then [Write SizeMap] else [])
             @ [Write Stats, Write SizeMap]"
  using assms
  by (simp_all add: DeallocateRaw_def Let_def stats_emit size_map_emit events_emit
        subscript_def erase_def live_size_def split: option.split)

lemma ClearStats_stats:
  "stats (ClearStats a) =
     (stats a)\<lparr>num_allocs := 0, peak_bytes_in_use := bytes_in_use (stats a),
               largest_alloc_size := 0\<rparr>"
  by (simp add: ClearStats_def Let_def stats_emit)

lemma ClearStats_size_map: "size_map (ClearStats a) = size_map a"
  by (simp add: ClearStats_def Let_def size_map_emit)

lemma ClearStats_events:
  "events (ClearStats a) = events a @ [Acquire, Write Stats, Write Stats, Write Stats, Release]"
  by (simp add: ClearStats_def Let_def events_emit)

lemma GetStats_fields:
  "stats (fst (GetStats a)) = stats a"
  "size_map (fst (GetStats a)) = size_map a"
  "events (fst (GetStats a)) = events a @ [Acquire, Release]"
  by (simp_all add: GetStats_def stats_emit size_map_emit events_emit)

subsection \<open>Reading the 64-bit fields as integers\<close>

text \<open>
  \<^verbatim>\<open>bytes_in_use += num_bytes\<close> adds an unsigned size to a signed counter. Read as
  integers, the sum is exact as long as it stays below \<open>2 ^ 63\<close>, and the difference
  of \<^verbatim>\<open>bytes_in_use -= size\<close> is exact as long as it stays at or above \<open>- (2 ^ 63)\<close>.
\<close>

lemma sint_add_size:
  fixes x n :: "64 word"
  assumes "sint x + uint n < 2 ^ 63"
  shows "sint (x + n) = sint x + uint n"
proof -
  have "0 \<le> uint n" "- (2 ^ 63) \<le> sint x"
    using sint_ge [of x] by simp_all
  then have lo: "- (2 ^ 63) \<le> sint x + uint n"
    by linarith
  have "x + n = word_of_int (sint x + uint n)"
    by simp
  then have "sint (x + n) = sint (word_of_int (sint x + uint n) :: 64 word)"
    by (rule arg_cong)
  also have "\<dots> = signed_take_bit 63 (sint x + uint n)"
    by (simp only: sint_sbintrunc') simp
  also have "\<dots> = sint x + uint n"
    using lo assms by (intro signed_take_bit_int_eq_self)
  finally show ?thesis .
qed

lemma sint_sub_size:
  fixes x v :: "64 word"
  assumes "- (2 ^ 63) \<le> sint x - uint v"
  shows "sint (x - v) = sint x - uint v"
proof -
  have "0 \<le> uint v" "sint x < 2 ^ 63"
    using sint_lt [of x] by simp_all
  then have hi: "sint x - uint v < 2 ^ 63"
    by linarith
  have "x - v = word_of_int (sint x - uint v)"
    by simp
  then have "sint (x - v) = sint (word_of_int (sint x - uint v) :: 64 word)"
    by (rule arg_cong)
  also have "\<dots> = signed_take_bit 63 (sint x - uint v)"
    by (simp only: sint_sbintrunc') simp
  also have "\<dots> = sint x - uint v"
    using hi assms by (intro signed_take_bit_int_eq_self)
  finally show ?thesis .
qed

lemma sint_max_int64: "sint (max_int64 x y) = max (sint x) (sint y)"
  by (simp add: max_int64_def max_def)

lemma uint_max_size_t: "uint (max_size_t x y) = max (uint x) (uint y)"
  by (simp add: max_size_t_def max_def word_less_nat_alt [symmetric] word_less_alt)

lemma pool_api_cuda_11_2: "pool_api cuda_11_2"
  by (simp add: pool_api_def cuda_11_2_def)

lemma one_live_fields:
  "stats one_live =
     \<lparr>num_allocs = 1, bytes_in_use = 1024, peak_bytes_in_use = 1024,
      largest_alloc_size = 1024, bytes_limit = 0\<rparr>"
  "size_map one_live = [0x1000 \<mapsto> 1024]"
  by (simp_all add: one_live_def AllocateRaw_success pool_api_cuda_11_2 allocator_init_def
        AllocatorStats_init_def max_int64_def max_size_t_def)

subsection \<open>An entry of the map stays until its address is released or handed out again\<close>

lemma step_keeps_entry: "\<not> touches p c \<Longrightarrow> size_map (step cfg c a) p = size_map a p"
proof (cases c)
  case (Alloc alignment num_bytes res rv)
  assume "\<not> touches p c"
  with Alloc show ?thesis
    by (cases "pool_api cfg"; cases "res = cudaSuccess")
       (simp_all add: AllocateRaw_not_compiled AllocateRaw_failure AllocateRaw_success)
next
  case (Free q res)
  assume "\<not> touches p c"
  with Free show ?thesis
    by (cases "pool_api cfg") (simp_all add: DeallocateRaw_not_compiled DeallocateRaw_fields)
next
  case Clear
  then show ?thesis by (simp add: ClearStats_size_map)
next
  case Get
  then show ?thesis by (simp add: GetStats_fields)
qed

lemma run_keeps_entry:
  "list_all (\<lambda>c. \<not> touches p c) cs \<Longrightarrow> size_map (run cfg cs a) p = size_map a p"
  by (induction cs arbitrary: a) (simp_all add: step_keeps_entry)

subsection \<open>The sum of the recorded sizes\<close>

lemma sum_dom_split:
  fixes m :: "ptr \<rightharpoonup> size_t" and f :: "size_t \<Rightarrow> 'a::comm_monoid_add"
  shows "(\<Sum>q\<in>dom m. f (the (m q))) =
         (\<Sum>q\<in>dom (m(p := None)). f (the ((m(p := None)) q)))
           + (case m p of None \<Rightarrow> 0 | Some v \<Rightarrow> f v)"
proof (cases "m p")
  case None
  have "m(p := None) = m" using None by (rule fun_upd_idem)
  then show ?thesis by (simp only: None option.case add_0_right)
next
  case (Some v)
  have fin: "finite (dom m)" by simp
  have p: "p \<in> dom m" using Some by (rule domI)
  have "(\<Sum>q\<in>dom m. f (the (m q))) = f (the (m p)) + (\<Sum>q\<in>dom m - {p}. f (the (m q)))"
    using fin p by (rule sum.remove)
  moreover have "(\<Sum>q\<in>dom m - {p}. f (the (m q))) =
      (\<Sum>q\<in>dom m - {p}. f (the ((m(p := None)) q)))"
    by (rule sum.cong) simp_all
  moreover have "dom (m(p := None)) = dom m - {p}"
    by simp
  ultimately show ?thesis
    by (simp only: Some option.case option.sel add.commute)
qed


lemma live_bytes_split:
  "live_bytes (size_map a) = live_bytes ((size_map a)(p := None)) + unat (live_size a p)"
proof -
  have "unat (live_size a p) = (case size_map a p of None \<Rightarrow> 0 | Some v \<Rightarrow> unat v)"
    by (simp add: live_size_def split: option.split)
  then show ?thesis
    unfolding live_bytes_def
    using sum_dom_split [of unat "size_map a" p] by simp
qed


lemma live_bytes_upd: "live_bytes (m(p \<mapsto> n)) = live_bytes (m(p := None)) + unat n"
  unfolding live_bytes_def
  using sum_dom_split [of unat "m(p \<mapsto> n)" p] by simp


lemma live_bytes_empty: "live_bytes Map.empty = 0"
  by (simp add: live_bytes_def)


lemma AllocateRaw_failure_keeps_fields:
  assumes "res \<noteq> cudaSuccess"
  shows "stats (fst (AllocateRaw cfg (res, rv) alignment num_bytes a)) = stats a"
    and "size_map (fst (AllocateRaw cfg (res, rv) alignment num_bytes a)) = size_map a"
    and "snd (AllocateRaw cfg (res, rv) alignment num_bytes a) = nullptr"
  using assms
  by (cases "pool_api cfg"; simp add: AllocateRaw_failure AllocateRaw_not_compiled)+





subsection \<open>The statistics as integers\<close>


lemma live_size_le_live_bytes: "unat (live_size a q) \<le> live_bytes (size_map a)"
  using live_bytes_split [of a q] by simp





lemma fits_int64_fresh: "fits_int64 a c \<Longrightarrow> hands_out_fresh a c"
  by (cases c) (simp_all split: if_splits)

lemma along_fits_fresh: "along cfg fits_int64 cs a \<Longrightarrow> along cfg hands_out_fresh cs a"
  by (induction cs arbitrary: a) (simp_all add: fits_int64_fresh)

subsection \<open>The peak, without any assumption on the addresses\<close>

lemma AllocateRaw_bounded:
  assumes "bounded a" and "pool_api cfg"
    and "sint (bytes_in_use (stats a)) + uint num_bytes < 2 ^ 63"
  shows "bounded (fst (AllocateRaw cfg (cudaSuccess, p) alignment num_bytes a))"
proof -
  let ?a' = "fst (AllocateRaw cfg (cudaSuccess, p) alignment num_bytes a)"
  have biu: "sint (bytes_in_use (stats ?a')) = sint (bytes_in_use (stats a)) + uint num_bytes"
    using assms(2,3) by (simp add: AllocateRaw_success sint_add_size)
  have "live_bytes (size_map ?a') = live_bytes ((size_map a)(p := None)) + unat num_bytes"
    using assms(2) by (simp add: AllocateRaw_success live_bytes_upd)
  moreover have "live_bytes ((size_map a)(p := None)) \<le> live_bytes (size_map a)"
    using live_bytes_split [of a p] by simp
  ultimately have "live_bytes (size_map ?a') \<le> live_bytes (size_map a) + unat num_bytes"
    by simp
  then have "int (live_bytes (size_map ?a')) \<le> int (live_bytes (size_map a)) + int (unat num_bytes)"
    by linarith
  moreover have "int (unat num_bytes) = uint num_bytes"
    by simp
  moreover have "int (live_bytes (size_map a)) \<le> sint (bytes_in_use (stats a))"
    using assms(1) by (simp add: bounded_def)
  ultimately have live: "int (live_bytes (size_map ?a')) \<le> sint (bytes_in_use (stats ?a'))"
    using biu by linarith
  have peak: "sint (bytes_in_use (stats ?a')) \<le> sint (peak_bytes_in_use (stats ?a'))"
    using assms(2) by (simp add: AllocateRaw_success sint_max_int64)
  show ?thesis
    using live peak by (simp add: bounded_def)
qed

lemma DeallocateRaw_below_peak:
  assumes "sint (bytes_in_use (stats a)) \<le> sint (peak_bytes_in_use (stats a))"
    and "- (2 ^ 63) \<le> sint (bytes_in_use (stats a)) - uint (live_size a q)"
  shows "sint (bytes_in_use (stats (DeallocateRaw cfg res q a)))
         \<le> sint (peak_bytes_in_use (stats (DeallocateRaw cfg res q a)))"
proof (cases "pool_api cfg")
  case True
  let ?v = "live_size a q"
  have "sint (bytes_in_use (stats (DeallocateRaw cfg res q a))) =
      sint (bytes_in_use (stats a)) - uint ?v"
    using True assms(2) by (simp add: DeallocateRaw_fields sint_sub_size)
  moreover have "0 \<le> uint ?v"
    by simp
  ultimately have "sint (bytes_in_use (stats (DeallocateRaw cfg res q a)))
      \<le> sint (peak_bytes_in_use (stats a))"
    using assms(1) by linarith
  moreover have "peak_bytes_in_use (stats (DeallocateRaw cfg res q a)) =
      peak_bytes_in_use (stats a)"
    using True by (simp add: DeallocateRaw_fields)
  ultimately show ?thesis
    by simp
next
  case False
  then show ?thesis
    using assms(1) by (simp add: DeallocateRaw_not_compiled)
qed

lemma DeallocateRaw_bounded:
  assumes "bounded a"
  shows "bounded (DeallocateRaw cfg res q a)"
proof (cases "pool_api cfg")
  case True
  let ?a' = "DeallocateRaw cfg res q a"
  let ?v = "live_size a q"
  have v: "uint ?v = int (unat ?v)"
    by simp
  have le: "unat ?v \<le> live_bytes (size_map a)"
    by (rule live_size_le_live_bytes)
  have cov: "int (live_bytes (size_map a)) \<le> sint (bytes_in_use (stats a))"
    using assms by (simp add: bounded_def)
  have nonneg: "0 \<le> uint ?v"
    by simp
  have "0 \<le> sint (bytes_in_use (stats a)) - uint ?v"
    using v le cov by linarith
  then have "- (2 ^ 63) \<le> sint (bytes_in_use (stats a)) - uint ?v"
    by simp
  then have biu: "sint (bytes_in_use (stats ?a')) = sint (bytes_in_use (stats a)) - uint ?v"
    using True by (simp add: DeallocateRaw_fields sint_sub_size)
  have "live_bytes (size_map a) = live_bytes (size_map ?a') + unat ?v"
    using True live_bytes_split [of a q] by (simp add: DeallocateRaw_fields)
  then have "int (live_bytes (size_map ?a')) = int (live_bytes (size_map a)) - uint ?v"
    by simp
  then have live: "int (live_bytes (size_map ?a')) \<le> sint (bytes_in_use (stats ?a'))"
    using biu cov by linarith
  have peak: "peak_bytes_in_use (stats ?a') = peak_bytes_in_use (stats a)"
    using True by (simp add: DeallocateRaw_fields)
  have "sint (bytes_in_use (stats ?a')) \<le> sint (bytes_in_use (stats a))"
    using biu nonneg by linarith
  then have "sint (bytes_in_use (stats ?a')) \<le> sint (peak_bytes_in_use (stats ?a'))"
    using assms peak by (simp add: bounded_def)
  with live show ?thesis
    by (simp add: bounded_def)
next
  case False
  then show ?thesis
    using assms by (simp add: DeallocateRaw_not_compiled)
qed

lemma ClearStats_bounded: "bounded a \<Longrightarrow> bounded (ClearStats a)"
  by (simp add: bounded_def ClearStats_stats ClearStats_size_map)

lemma step_bounded:
  assumes "bounded a" and "no_overflow a c"
  shows "bounded (step cfg c a)"
proof (cases c)
  case (Alloc alignment num_bytes res rv)
  show ?thesis
  proof (cases "res = cudaSuccess")
    case True
    show ?thesis
    proof (cases "pool_api cfg")
      case api: True
      with Alloc True assms show ?thesis
        using AllocateRaw_bounded [of a cfg num_bytes rv alignment] by simp
    next
      case False
      with Alloc assms(1) show ?thesis
        by (simp add: AllocateRaw_not_compiled)
    qed
  next
    case False
    with Alloc assms(1) show ?thesis
      by (simp add: bounded_def AllocateRaw_failure_keeps_fields)
  qed
next
  case (Free q res)
  with assms(1) show ?thesis
    by (simp add: DeallocateRaw_bounded)
next
  case Clear
  with assms(1) show ?thesis
    by (simp add: ClearStats_bounded)
next
  case Get
  with assms(1) show ?thesis
    by (simp add: bounded_def GetStats_fields)
qed

lemma run_bounded:
  "bounded a \<Longrightarrow> along cfg no_overflow cs a \<Longrightarrow> bounded (run cfg cs a)"
  by (induction cs arbitrary: a) (simp_all add: step_bounded)

subsection \<open>The object the constructor leaves\<close>

lemma configure_pool_fields:
  assumes "configure_pool env platform_gpu_id pool_size a = Inr a'"
  shows "stats a' = (stats a)\<lparr>bytes_limit := pool_size\<rparr>" and "size_map a' = size_map a"
  using assms
  by (auto simp add: configure_pool_def Let_def stats_emit size_map_emit
        split: if_splits option.splits)

lemma reserve_fields:
  assumes "size_map a = Map.empty"
  shows "stats (reserve cfg env pool_size a) =
           (stats a)\<lparr>num_allocs := 0, peak_bytes_in_use := bytes_in_use (stats a),
                     largest_alloc_size := 0\<rparr>"
    and "size_map (reserve cfg env pool_size a) = Map.empty"
proof -
  obtain res rv where drv: "reserve_malloc env = (res, rv)"
    by (cases "reserve_malloc env")
  let ?b = "fst (AllocateRaw cfg (res, rv) 0 pool_size a)"
  let ?p = "snd (AllocateRaw cfg (res, rv) 0 pool_size a)"
  let ?c = "DeallocateRaw cfg (reserve_free env) ?p ?b"
  have c: "bytes_in_use (stats ?c) = bytes_in_use (stats a) \<and> size_map ?c = Map.empty
      \<and> bytes_limit (stats ?c) = bytes_limit (stats a)"
  proof (cases "pool_api cfg")
    case True
    show ?thesis
    proof (cases "res = cudaSuccess")
      case ok: True
      with True assms show ?thesis
        by (simp add: AllocateRaw_success DeallocateRaw_fields live_size_def)
    next
      case False
      with True assms show ?thesis
        by (simp add: AllocateRaw_failure_keeps_fields DeallocateRaw_fields live_size_def)
    qed
  next
    case False
    with assms show ?thesis
      by (simp add: AllocateRaw_not_compiled DeallocateRaw_not_compiled)
  qed
  have r: "reserve cfg env pool_size a = ClearStats ?c"
    by (simp add: reserve_def Let_def drv)
  show "stats (reserve cfg env pool_size a) =
           (stats a)\<lparr>num_allocs := 0, peak_bytes_in_use := bytes_in_use (stats a),
                     largest_alloc_size := 0\<rparr>"
    using c by (simp add: r ClearStats_stats)
  show "size_map (reserve cfg env pool_size a) = Map.empty"
    using c by (simp add: r ClearStats_size_map)
qed

lemma constructed_fields:
  assumes "GPUcudaMallocAsyncAllocator cfg env platform_gpu_id pool_size reserve_memory = Inr a"
  shows "stats a =
           \<lparr>num_allocs = 0, bytes_in_use = 0, peak_bytes_in_use = 0, largest_alloc_size = 0,
            bytes_limit = (if CUDA_VERSION cfg < 11020 then 0 else pool_size)\<rparr>"
    and "size_map a = Map.empty"
proof -
  have init: "stats allocator_init = AllocatorStats_init" "size_map allocator_init = Map.empty"
    by (simp_all add: allocator_init_def)
  obtain b where b: "stats b = AllocatorStats_init
        \<lparr>bytes_limit := (if CUDA_VERSION cfg < 11020 then 0 else pool_size)\<rparr>"
      "size_map b = Map.empty"
    and a: "a = (if reserve_memory then reserve cfg env pool_size b else b)"
  proof (cases "CUDA_VERSION cfg < 11020")
    case True
    with assms have "a = (if reserve_memory
        then reserve cfg env pool_size (emit [Log ERROR] allocator_init)
        else emit [Log ERROR] allocator_init)"
      by (simp add: GPUcudaMallocAsyncAllocator_def split: if_splits)
    moreover have "stats (emit [Log ERROR] allocator_init) = AllocatorStats_init
        \<lparr>bytes_limit := (if CUDA_VERSION cfg < 11020 then 0 else pool_size)\<rparr>"
      using True by (simp add: stats_emit init AllocatorStats_init_def)
    moreover have "size_map (emit [Log ERROR] allocator_init) = Map.empty"
      by (simp add: size_map_emit init)
    ultimately show ?thesis
      using that by blast
  next
    case False
    with assms obtain c
      where c: "configure_pool env platform_gpu_id pool_size allocator_init = Inr c"
      and "a = (if reserve_memory then reserve cfg env pool_size c else c)"
      by (auto simp add: GPUcudaMallocAsyncAllocator_def split: if_splits sum.splits)
    moreover have "stats c = AllocatorStats_init
        \<lparr>bytes_limit := (if CUDA_VERSION cfg < 11020 then 0 else pool_size)\<rparr>"
      using False configure_pool_fields(1) [OF c] by (simp add: init)
    moreover have "size_map c = Map.empty"
      using configure_pool_fields(2) [OF c] by (simp add: init)
    ultimately show ?thesis
      using that by blast
  qed
  show "stats a =
           \<lparr>num_allocs = 0, bytes_in_use = 0, peak_bytes_in_use = 0, largest_alloc_size = 0,
            bytes_limit = (if CUDA_VERSION cfg < 11020 then 0 else pool_size)\<rparr>"
    using reserve_fields(1) [OF b(2), of cfg env pool_size]
    by (simp add: a b(1) AllocatorStats_init_def)
  show "size_map a = Map.empty"
    using reserve_fields(2) [OF b(2), of cfg env pool_size]
    by (simp add: a b(2))
qed


lemma constructed_bounded:
  assumes "GPUcudaMallocAsyncAllocator cfg env platform_gpu_id pool_size reserve_memory = Inr a"
  shows "bounded a"
  using constructed_fields [OF assms]
  by (simp add: bounded_def live_bytes_empty)

subsection \<open>The scenario of the spec, computed\<close>

lemma prefilled_constructed:
  "GPUcudaMallocAsyncAllocator cuda_11_2 plain_env 0 4096 True = Inr prefilled"
  by (simp add: prefilled_def GPUcudaMallocAsyncAllocator_def configure_pool_def
        plain_env_def cuda_11_2_def Let_def)

lemma prefilled_fields:
  "stats prefilled =
     \<lparr>num_allocs = 0, bytes_in_use = 0, peak_bytes_in_use = 0, largest_alloc_size = 0,
      bytes_limit = 4096\<rparr>"
  "size_map prefilled = Map.empty"
  using constructed_fields [OF prefilled_constructed]
  by (simp_all add: cuda_11_2_def)

lemmas run_scenario =
  scenario_def pool_api_cuda_11_2 AllocateRaw_success DeallocateRaw_fields ClearStats_stats
  ClearStats_size_map prefilled_fields live_size_def max_int64_def max_size_t_def




lemma overflowing_fields:
  "bytes_in_use (stats (run cuda_11_2 overflowing prefilled)) = 1"
  "peak_bytes_in_use (stats (run cuda_11_2 overflowing prefilled)) = 0"
  by (simp_all add: overflowing_def run_scenario)

lemma rehanded_fields:
  "bytes_in_use (stats (run cuda_11_2 rehanded prefilled)) = 150"
  "peak_bytes_in_use (stats (run cuda_11_2 rehanded prefilled)) = 150"
  by (simp_all add: rehanded_def run_scenario)

lemma rehanded_no_overflow: "along cuda_11_2 no_overflow rehanded prefilled"
  by (simp add: rehanded_def run_scenario)

lemma scenario_no_overflow: "along cuda_11_2 no_overflow scenario prefilled"
  by (simp add: run_scenario)

subsection \<open>Calls on an object with nothing allocated; what the calls log\<close>

lemma step_events:
  "\<exists>es. events (step cfg c a) = events a @ es \<and> Log FATAL \<notin> set es"
proof (cases c)
  case (Alloc alignment num_bytes res rv)
  then show ?thesis
    by (cases "pool_api cfg"; cases "res = cudaSuccess")
       (simp_all add: AllocateRaw_not_compiled AllocateRaw_failure AllocateRaw_success)
next
  case (Free q res)
  then show ?thesis
    by (cases "pool_api cfg") (simp_all add: DeallocateRaw_not_compiled DeallocateRaw_fields)
next
  case Clear
  then show ?thesis by (simp add: ClearStats_events)
next
  case Get
  then show ?thesis by (simp add: GetStats_fields)
qed

lemma run_events:
  "\<exists>es. events (run cfg cs a) = events a @ es \<and> Log FATAL \<notin> set es"
proof (induction cs arbitrary: a)
  case Nil
  then show ?case by simp
next
  case (Cons c cs)
  obtain es where es: "events (step cfg c a) = events a @ es" "Log FATAL \<notin> set es"
    using step_events [of cfg c a] by blast
  obtain es' where es': "events (run cfg cs (step cfg c a)) = events (step cfg c a) @ es'"
      "Log FATAL \<notin> set es'"
    using Cons.IH [of "step cfg c a"] by blast
  have "events (run cfg (c # cs) a) = events a @ (es @ es')" "Log FATAL \<notin> set (es @ es')"
    using es es' by simp_all
  then show ?case by blast
qed

lemma run_logs_no_FATAL: "Log FATAL \<notin> set (issued a (run cfg cs a))"
proof -
  obtain es where "events (run cfg cs a) = events a @ es" "Log FATAL \<notin> set es"
    using run_events [of cfg cs a] by blast
  then show ?thesis by (simp add: issued_def)
qed

lemma step_idle:
  assumes "idle a" and "\<not> pool_gives c"
  shows "idle (step cfg c a) \<and> bytes_limit (stats (step cfg c a)) = bytes_limit (stats a)"
proof (cases c)
  case (Alloc alignment num_bytes res rv)
  with assms show ?thesis
    by (simp add: idle_def AllocateRaw_failure_keeps_fields)
next
  case (Free q res)
  with assms show ?thesis
    by (cases "pool_api cfg")
       (simp_all add: idle_def DeallocateRaw_not_compiled DeallocateRaw_fields live_size_def)
next
  case Clear
  with assms show ?thesis
    by (simp add: idle_def ClearStats_stats ClearStats_size_map)
next
  case Get
  with assms show ?thesis
    by (simp add: idle_def GetStats_fields)
qed

lemma run_idle:
  "idle a \<Longrightarrow> list_all (\<lambda>c. \<not> pool_gives c) cs \<Longrightarrow>
     idle (run cfg cs a) \<and> bytes_limit (stats (run cfg cs a)) = bytes_limit (stats a) \<and>
     list_all (\<lambda>r. r = nullptr) (returned cfg cs a)"
proof (induction cs arbitrary: a)
  case Nil
  then show ?case by simp
next
  case (Cons c cs)
  have c: "\<not> pool_gives c" and cs: "list_all (\<lambda>c. \<not> pool_gives c) cs"
    using Cons.prems(2) by simp_all
  note s = step_idle [OF Cons.prems(1) c, of cfg]
  note r = Cons.IH [OF s [THEN conjunct1] cs]
  have "list_all (\<lambda>r. r = nullptr) (returned cfg (c # cs) a)"
  proof (cases c)
    case (Alloc alignment num_bytes res rv)
    with c r show ?thesis
      by (simp add: AllocateRaw_failure_keeps_fields)
  qed (use r in simp_all)
  with s r show ?case by simp
qed

lemma constructed_idle:
  assumes "GPUcudaMallocAsyncAllocator cfg env platform_gpu_id pool_size reserve_memory = Inr a"
  shows "idle a"
  using constructed_fields [OF assms] by (simp add: idle_def)

lemma idle_stats:
  "idle a \<Longrightarrow> stats a =
     \<lparr>num_allocs = 0, bytes_in_use = 0, peak_bytes_in_use = 0, largest_alloc_size = 0,
      bytes_limit = bytes_limit (stats a)\<rparr>"
  by (cases "stats a") (simp add: idle_def)

lemma unsupported_device_constructed:
  "GPUcudaMallocAsyncAllocator cuda_11_2 unsupported_env 0 1024 True = Inr unsupported_device"
  by (simp add: unsupported_device_def GPUcudaMallocAsyncAllocator_def configure_pool_def
        unsupported_env_def cuda_11_2_def Let_def)

subsection \<open>AllocateRaw\<close>

text \<open>
  C1, as the code has it. When the pool allocation of a call
  \<open>AllocateRaw(alignment, num_bytes)\<close> succeeds and leaves the address \<open>p\<close>, the call
  returns \<open>p\<close>; \<open>num_allocs\<close> grows by one and \<open>bytes_in_use\<close> by \<open>num_bytes\<close> (in
  64-bit arithmetic, and as integers when the sums stay in the range of
  \<^verbatim>\<open>int64\<close>); \<open>peak_bytes_in_use\<close> becomes the larger of its old value and the new
  \<open>bytes_in_use\<close>, \<open>largest_alloc_size\<close> the larger of its old value and
  \<open>num_bytes\<close>; the map records \<open>num_bytes\<close> under \<open>p\<close> and keeps that entry through
  every later sequence of calls that neither releases \<open>p\<close> nor has the pool hand
  \<open>p\<close> out again. Through all of them \<open>RequestedSize(p)\<close> and \<open>AllocatedSize(p)\<close>
  return \<open>num_bytes\<close> when \<open>p\<close> is not null; for the null pointer both fail their
  \<^verbatim>\<open>CHECK(ptr)\<close>, tracked or not.
\<close>

theorem AllocateRaw_success_bookkeeping:
  assumes "pool_api cfg"
    and "AllocateRaw cfg (cudaSuccess, p) alignment num_bytes a = (a', r)"
  shows "r = p \<and>
     num_allocs (stats a') = num_allocs (stats a) + 1 \<and>
     bytes_in_use (stats a') = bytes_in_use (stats a) + num_bytes \<and>
     peak_bytes_in_use (stats a') =
       max_int64 (peak_bytes_in_use (stats a)) (bytes_in_use (stats a')) \<and>
     largest_alloc_size (stats a') = max_size_t (largest_alloc_size (stats a)) num_bytes \<and>
     bytes_limit (stats a') = bytes_limit (stats a) \<and>
     (sint (num_allocs (stats a)) < 2 ^ 63 - 1 \<longrightarrow>
        sint (num_allocs (stats a')) = sint (num_allocs (stats a)) + 1) \<and>
     (sint (bytes_in_use (stats a)) + uint num_bytes < 2 ^ 63 \<longrightarrow>
        sint (bytes_in_use (stats a')) = sint (bytes_in_use (stats a)) + uint num_bytes) \<and>
     sint (peak_bytes_in_use (stats a')) =
       max (sint (peak_bytes_in_use (stats a))) (sint (bytes_in_use (stats a'))) \<and>
     uint (largest_alloc_size (stats a')) =
       max (uint (largest_alloc_size (stats a))) (uint num_bytes) \<and>
     size_map a' = (size_map a)(p \<mapsto> num_bytes) \<and>
     (\<forall>cs. list_all (\<lambda>c. \<not> touches p c) cs \<longrightarrow>
        size_map (run cfg cs a') p = Some num_bytes \<and>
        RequestedSize (run cfg cs a') p =
          (if p = nullptr then Inl CheckFailed else Inr num_bytes) \<and>
        AllocatedSize (run cfg cs a') p =
          (if p = nullptr then Inl CheckFailed else Inr num_bytes))"
proof -
  have a': "a' = fst (AllocateRaw cfg (cudaSuccess, p) alignment num_bytes a)"
    and r: "r = snd (AllocateRaw cfg (cudaSuccess, p) alignment num_bytes a)"
    using assms(2) by simp_all
  note post = AllocateRaw_success [OF assms(1), of p alignment num_bytes a, folded a' r]
  have one: "sint (num_allocs (stats a)) < 2 ^ 63 - 1 \<Longrightarrow>
      sint (num_allocs (stats a) + 1) = sint (num_allocs (stats a)) + 1"
    using sint_add_size [of "num_allocs (stats a)" 1] by simp
  have later: "size_map (run cfg cs a') p = Some num_bytes"
    if "list_all (\<lambda>c. \<not> touches p c) cs" for cs
    using run_keeps_entry [OF that, of cfg a'] post(3) by simp
  show ?thesis
    using post(1) later
    by (simp add: post(2) post(3) one sint_add_size sint_max_int64 uint_max_size_t
          RequestedSize_def AllocatedSize_def)
qed

theorem AllocateRaw_success_bookkeeping_witness:
  "pool_api cuda_11_2 \<and>
   snd (AllocateRaw cuda_11_2 (cudaSuccess, 0x1000) 0 1024 allocator_init) = 0x1000 \<and>
   stats (fst (AllocateRaw cuda_11_2 (cudaSuccess, 0x1000) 0 1024 allocator_init)) =
     \<lparr>num_allocs = 1, bytes_in_use = 1024, peak_bytes_in_use = 1024,
      largest_alloc_size = 1024, bytes_limit = 0\<rparr> \<and>
   list_all (\<lambda>c. \<not> touches 0x1000 c) [Alloc 0 4096 cudaSuccess 0x2000, Clear, Free 0x2000 2] \<and>
   RequestedSize
     (run cuda_11_2 [Alloc 0 4096 cudaSuccess 0x2000, Clear, Free 0x2000 2]
        (fst (AllocateRaw cuda_11_2 (cudaSuccess, 0x1000) 0 1024 allocator_init))) 0x1000
     = Inr 1024 \<and>
   AllocatedSize
     (run cuda_11_2 [Alloc 0 4096 cudaSuccess 0x2000, Clear, Free 0x2000 2]
        (fst (AllocateRaw cuda_11_2 (cudaSuccess, 0x1000) 0 1024 allocator_init))) 0x1000
     = Inr 1024"
proof -
  let ?A = "fst (AllocateRaw cuda_11_2 (cudaSuccess, 0x1000) 0 1024 allocator_init)"
  let ?r = "snd (AllocateRaw cuda_11_2 (cudaSuccess, 0x1000) 0 1024 allocator_init)"
  let ?cs = "[Alloc 0 4096 cudaSuccess 0x2000, Clear, Free 0x2000 2]"
  have eq: "AllocateRaw cuda_11_2 (cudaSuccess, 0x1000) 0 1024 allocator_init = (?A, ?r)"
    by simp
  note t = AllocateRaw_success_bookkeeping [OF pool_api_cuda_11_2 eq]
  have cs: "list_all (\<lambda>c. \<not> touches 0x1000 c) ?cs"
    by simp
  have st: "stats allocator_init = AllocatorStats_init"
    by (simp add: allocator_init_def)
  have "stats ?A = \<lparr>num_allocs = 1, bytes_in_use = 1024, peak_bytes_in_use = 1024,
      largest_alloc_size = 1024, bytes_limit = 0\<rparr>"
    using t by (simp add: st AllocatorStats_init_def max_int64_def max_size_t_def)
  moreover have later: "\<forall>cs. list_all (\<lambda>c. \<not> touches 0x1000 c) cs \<longrightarrow>
        size_map (run cuda_11_2 cs ?A) 0x1000 = Some 1024 \<and>
        RequestedSize (run cuda_11_2 cs ?A) 0x1000 =
          (if (0x1000 :: ptr) = nullptr then Inl CheckFailed else Inr 1024) \<and>
        AllocatedSize (run cuda_11_2 cs ?A) 0x1000 =
          (if (0x1000 :: ptr) = nullptr then Inl CheckFailed else Inr 1024)"
    using t by blast
  have "RequestedSize (run cuda_11_2 ?cs ?A) 0x1000 = Inr 1024"
    "AllocatedSize (run cuda_11_2 ?cs ?A) 0x1000 = Inr 1024"
    using later [rule_format, OF cs] by simp_all
  ultimately show ?thesis
    using t cs pool_api_cuda_11_2 by simp
qed

text \<open>
  The claim as it is written promises the size for every address the pool returns.
  When the pool answers a request of zero bytes with success and the null address,
  the entry is recorded and both queries stop at \<^verbatim>\<open>CHECK(ptr)\<close>.
\<close>

theorem AllocateRaw_null_address_counterexample:
  "pool_api cuda_11_2 \<and>
   snd (AllocateRaw cuda_11_2 (cudaSuccess, nullptr) 0 0 allocator_init) = nullptr \<and>
   size_map (fst (AllocateRaw cuda_11_2 (cudaSuccess, nullptr) 0 0 allocator_init)) nullptr
     = Some 0 \<and>
   RequestedSize (fst (AllocateRaw cuda_11_2 (cudaSuccess, nullptr) 0 0 allocator_init)) nullptr
     = Inl CheckFailed \<and>
   AllocatedSize (fst (AllocateRaw cuda_11_2 (cudaSuccess, nullptr) 0 0 allocator_init)) nullptr
     = Inl CheckFailed"
  by (simp add: pool_api_cuda_11_2 AllocateRaw_success RequestedSize_def AllocatedSize_def)

text \<open>
  C4. When the pool allocation of a call to AllocateRaw fails, the call returns the
  null pointer, the statistics record and the size-tracking map are as before the
  call, and what the call logs is logged at \<^verbatim>\<open>ERROR\<close>: no \<^verbatim>\<open>FATAL\<close> entry, no failed
  check. In a build without the pool API the call returns the null pointer at
  once.
\<close>

theorem AllocateRaw_failure_returns_null:
  "fst drv \<noteq> cudaSuccess \<Longrightarrow>
     snd (AllocateRaw cfg drv alignment num_bytes a) = nullptr \<and>
     stats (fst (AllocateRaw cfg drv alignment num_bytes a)) = stats a \<and>
     size_map (fst (AllocateRaw cfg drv alignment num_bytes a)) = size_map a \<and>
     Log FATAL \<notin> set (issued a (fst (AllocateRaw cfg drv alignment num_bytes a)))"
proof (cases "pool_api cfg")
  case True
  assume "fst drv \<noteq> cudaSuccess"
  with True show ?thesis
    by (simp add: AllocateRaw_failure issued_append)
next
  case False
  then show ?thesis
    by (simp add: AllocateRaw_not_compiled issued_def)
qed

theorem AllocateRaw_failure_returns_null_witness:
  "fst (2 :: cudaError_t, 0 :: ptr) \<noteq> cudaSuccess \<and>
   snd (AllocateRaw cuda_11_2 (2, 0) 0 1024 allocator_init) = nullptr \<and>
   stats (fst (AllocateRaw cuda_11_2 (2, 0) 0 1024 allocator_init)) = AllocatorStats_init \<and>
   size_map (fst (AllocateRaw cuda_11_2 (2, 0) 0 1024 allocator_init)) = Map.empty \<and>
   Log FATAL \<notin> set (issued allocator_init
                      (fst (AllocateRaw cuda_11_2 (2, 0) 0 1024 allocator_init)))"
  using AllocateRaw_failure_returns_null [of "(2, 0)" cuda_11_2 0 1024 allocator_init]
  by (simp add: allocator_init_def)

subsection \<open>DeallocateRaw\<close>

text \<open>
  C3. A call \<open>DeallocateRaw(p)\<close> for an address \<open>p\<close> that the map tracks with size
  \<open>s\<close> removes \<open>p\<close> from the map, leaves every other entry, and takes \<open>s\<close> off
  \<open>bytes_in_use\<close> (in 64-bit arithmetic, and as integers when the difference stays
  in the range of \<^verbatim>\<open>int64\<close>), whatever \<^verbatim>\<open>cudaFreeAsync\<close> answers; the other
  statistics are not touched.
\<close>

theorem DeallocateRaw_tracked:
  "pool_api cfg \<Longrightarrow> size_map a p = Some s \<Longrightarrow>
     size_map (DeallocateRaw cfg res p a) = (size_map a)(p := None) \<and>
     bytes_in_use (stats (DeallocateRaw cfg res p a)) = bytes_in_use (stats a) - s \<and>
     (- (2 ^ 63) \<le> sint (bytes_in_use (stats a)) - uint s \<longrightarrow>
        sint (bytes_in_use (stats (DeallocateRaw cfg res p a)))
          = sint (bytes_in_use (stats a)) - uint s) \<and>
     num_allocs (stats (DeallocateRaw cfg res p a)) = num_allocs (stats a) \<and>
     peak_bytes_in_use (stats (DeallocateRaw cfg res p a)) = peak_bytes_in_use (stats a) \<and>
     largest_alloc_size (stats (DeallocateRaw cfg res p a)) = largest_alloc_size (stats a) \<and>
     bytes_limit (stats (DeallocateRaw cfg res p a)) = bytes_limit (stats a)"
  by (simp add: DeallocateRaw_fields live_size_def sint_sub_size)

theorem DeallocateRaw_tracked_witness:
  "pool_api cuda_11_2 \<and> size_map one_live 0x1000 = Some 1024 \<and>
   size_map (DeallocateRaw cuda_11_2 2 0x1000 one_live) = Map.empty \<and>
   bytes_in_use (stats (DeallocateRaw cuda_11_2 2 0x1000 one_live)) = 0 \<and>
   sint (bytes_in_use (stats (DeallocateRaw cuda_11_2 2 0x1000 one_live))) = 0 \<and>
   size_map (DeallocateRaw cuda_11_2 cudaSuccess 0x1000 one_live) = Map.empty \<and>
   bytes_in_use (stats (DeallocateRaw cuda_11_2 cudaSuccess 0x1000 one_live)) = 0 \<and>
   peak_bytes_in_use (stats (DeallocateRaw cuda_11_2 2 0x1000 one_live)) = 1024"
proof -
  have tracked: "size_map one_live 0x1000 = Some 1024"
    by (simp add: one_live_fields)
  note failing = DeallocateRaw_tracked [OF pool_api_cuda_11_2 tracked, of 2]
  note succeeding = DeallocateRaw_tracked [OF pool_api_cuda_11_2 tracked, of cudaSuccess]
  show ?thesis
    using failing succeeding tracked pool_api_cuda_11_2
    by (simp add: one_live_fields)
qed

text \<open>
  C10. A call \<open>DeallocateRaw(p)\<close> for a pointer \<open>p\<close> that the map does not track, the
  null pointer included, leaves the statistics record and the map as they were:
  \<^verbatim>\<open>size_map_[ptr]\<close> inserts a zero size under \<open>p\<close> and returns it, zero is taken off
  \<open>bytes_in_use\<close>, and \<^verbatim>\<open>erase\<close> removes the entry again. So a pre-filling whose
  allocation fails, and which then releases the null pointer, changes the
  statistics only through its \<open>ClearStats\<close>.
\<close>

theorem DeallocateRaw_untracked:
  "size_map a p = None \<Longrightarrow>
     stats (DeallocateRaw cfg res p a) = stats a \<and>
     size_map (DeallocateRaw cfg res p a) = size_map a \<and>
     subscript (size_map a) p = ((size_map a)(p \<mapsto> 0), 0) \<and>
     erase ((size_map a)(p \<mapsto> 0)) p = size_map a \<and>
     (p = nullptr \<and> fst (reserve_malloc env) \<noteq> cudaSuccess \<longrightarrow>
        stats (reserve cfg env pool_size a) = stats (ClearStats a) \<and>
        size_map (reserve cfg env pool_size a) = size_map a)"
proof -
  assume untracked: "size_map a p = None"
  have free: "stats (DeallocateRaw cfg r q b) = stats b \<and>
      size_map (DeallocateRaw cfg r q b) = size_map b"
    if "size_map b q = None" for r q b
  proof (cases "pool_api cfg")
    case True
    with that show ?thesis
      by (simp add: DeallocateRaw_fields live_size_def fun_upd_idem)
  next
    case False
    then show ?thesis
      by (simp add: DeallocateRaw_not_compiled)
  qed
  have failed: "snd (AllocateRaw cfg drv 0 pool_size a) = nullptr \<and>
      stats (fst (AllocateRaw cfg drv 0 pool_size a)) = stats a \<and>
      size_map (fst (AllocateRaw cfg drv 0 pool_size a)) = size_map a"
    if "fst drv \<noteq> cudaSuccess" for drv
    using that
    by (cases "pool_api cfg") (simp_all add: AllocateRaw_failure AllocateRaw_not_compiled)
  have "stats (reserve cfg env pool_size a) = stats (ClearStats a) \<and>
      size_map (reserve cfg env pool_size a) = size_map a"
    if "p = nullptr" and "fst (reserve_malloc env) \<noteq> cudaSuccess"
  proof -
    let ?b = "fst (AllocateRaw cfg (reserve_malloc env) 0 pool_size a)"
    have b: "stats ?b = stats a" "size_map ?b = size_map a"
      and null: "snd (AllocateRaw cfg (reserve_malloc env) 0 pool_size a) = nullptr"
      using failed [OF that(2)] by simp_all
    have "size_map ?b nullptr = None"
      using untracked that(1) b(2) by simp
    from free [OF this] b show ?thesis
      by (simp add: reserve_def Let_def null ClearStats_stats ClearStats_size_map)
  qed
  then show ?thesis
    using free [OF untracked] untracked
    by (simp add: subscript_def erase_def fun_upd_idem)
qed

theorem DeallocateRaw_untracked_witness:
  "size_map one_live nullptr = None \<and>
   stats (DeallocateRaw cuda_11_2 801 nullptr one_live) = stats one_live \<and>
   size_map (DeallocateRaw cuda_11_2 801 nullptr one_live) = size_map one_live \<and>
   fst (reserve_malloc unsupported_env) \<noteq> cudaSuccess \<and>
   stats (reserve cuda_11_2 unsupported_env 4096 one_live) = stats (ClearStats one_live) \<and>
   size_map (reserve cuda_11_2 unsupported_env 4096 one_live) = size_map one_live"
proof -
  have untracked: "size_map one_live nullptr = None"
    by (simp add: one_live_fields)
  have failed: "fst (reserve_malloc unsupported_env) \<noteq> cudaSuccess"
    by (simp add: unsupported_env_def)
  show ?thesis
    using DeallocateRaw_untracked [OF untracked, of cuda_11_2 801 unsupported_env 4096]
      untracked failed
    by simp
qed

subsection \<open>Size queries\<close>

text \<open>
  C7, as the code has it. For an address \<open>p\<close> that the size-tracking map does not
  track, neither \<open>RequestedSize(p)\<close> nor \<open>AllocatedSize(p)\<close> returns a size. For the
  null pointer the call ends in the failed \<^verbatim>\<open>CHECK(ptr)\<close>, a fatal assertion. For
  every other untracked address \<^verbatim>\<open>CHECK(ptr)\<close> passes and the call ends in
  \<^verbatim>\<open>size_map_.at(ptr)\<close>, which throws \<^verbatim>\<open>std::out_of_range\<close>: an exception that
  reaches the caller, not an assertion.
\<close>

theorem size_queries_untracked:
  "size_map a p = None \<Longrightarrow>
     RequestedSize a p = Inl (if p = nullptr then CheckFailed else OutOfRange) \<and>
     AllocatedSize a p = Inl (if p = nullptr then CheckFailed else OutOfRange) \<and>
     (\<forall>n. RequestedSize a p \<noteq> Inr n \<and> AllocatedSize a p \<noteq> Inr n) \<and>
     (\<exists>f. RequestedSize a p = Inl f \<and> AllocatedSize a p = Inl f \<and>
          fatal f = (p = nullptr))"
  by (simp add: RequestedSize_def AllocatedSize_def)

theorem size_queries_untracked_witness:
  "size_map one_live 0x2000 = None \<and>
   RequestedSize one_live 0x2000 = Inl OutOfRange \<and>
   AllocatedSize one_live 0x2000 = Inl OutOfRange \<and>
   size_map one_live nullptr = None \<and>
   RequestedSize one_live nullptr = Inl CheckFailed \<and>
   AllocatedSize one_live nullptr = Inl CheckFailed"
proof -
  have untracked: "size_map one_live 0x2000 = None" "size_map one_live nullptr = None"
    by (simp_all add: one_live_fields)
  show ?thesis
    using size_queries_untracked [OF untracked(1)] size_queries_untracked [OF untracked(2)]
      untracked
    by simp
qed

text \<open>
  The claim as it is written has every such query end in a fatal assertion. The
  queries of the untracked address \<open>0x2000\<close> pass their check and end in the
  exception instead.
\<close>

theorem size_queries_out_of_range_counterexample:
  "size_map one_live 0x2000 = None \<and>
   RequestedSize one_live 0x2000 = Inl OutOfRange \<and>
   AllocatedSize one_live 0x2000 = Inl OutOfRange \<and>
   \<not> fatal OutOfRange \<and>
   RequestedSize one_live 0x2000 \<noteq> Inl CheckFailed \<and>
   AllocatedSize one_live 0x2000 \<noteq> Inl CheckFailed"
  by (simp add: one_live_fields RequestedSize_def AllocatedSize_def)

subsection \<open>ClearStats\<close>

text \<open>
  C5. Every call to ClearStats sets \<open>num_allocs\<close> to 0, sets \<open>largest_alloc_size\<close> to 0,
  sets \<open>peak_bytes_in_use\<close> to the current value of \<open>bytes_in_use\<close> (not to zero), and
  leaves \<open>bytes_in_use\<close>, \<open>bytes_limit\<close> and the contents of the size-tracking map
  unchanged.
\<close>

theorem ClearStats_resets_counters:
  "num_allocs (stats (ClearStats a)) = 0 \<and>
   largest_alloc_size (stats (ClearStats a)) = 0 \<and>
   peak_bytes_in_use (stats (ClearStats a)) = bytes_in_use (stats a) \<and>
   bytes_in_use (stats (ClearStats a)) = bytes_in_use (stats a) \<and>
   bytes_limit (stats (ClearStats a)) = bytes_limit (stats a) \<and>
   size_map (ClearStats a) = size_map a"
  by (simp add: ClearStats_stats ClearStats_size_map)
subsection \<open>Invariants of the statistics\<close>




text \<open>
  C6, as the code has it. \<open>peak_bytes_in_use\<close> is at least \<open>bytes_in_use\<close> (both read
  as \<^verbatim>\<open>int64\<close>) after construction and after every sequence of calls in which
  \<^verbatim>\<open>bytes_in_use += num_bytes\<close> of each successful allocation stays below \<open>2 ^ 63\<close>,
  whatever addresses the pool hands out. Step by step: it holds after every
  successful AllocateRaw and, with equality, after every ClearStats; a
  DeallocateRaw keeps it when the subtraction does not pass below \<open>- (2 ^ 63)\<close>. No
  AllocateRaw lowers \<open>peak_bytes_in_use\<close> and no DeallocateRaw changes it;
  ClearStats sets it to the current \<open>bytes_in_use\<close>.
\<close>

theorem peak_bytes_in_use_bounds:
  "(GPUcudaMallocAsyncAllocator cfg env platform_gpu_id pool_size reserve_memory = Inr a0 \<and>
      along cfg no_overflow cs a0 \<longrightarrow>
      sint (bytes_in_use (stats (run cfg cs a0)))
        \<le> sint (peak_bytes_in_use (stats (run cfg cs a0)))) \<and>
   (pool_api cfg \<longrightarrow>
      sint (bytes_in_use (stats (fst (AllocateRaw cfg (cudaSuccess, p) alignment num_bytes a))))
        \<le> sint (peak_bytes_in_use
                  (stats (fst (AllocateRaw cfg (cudaSuccess, p) alignment num_bytes a))))) \<and>
   sint (peak_bytes_in_use (stats a))
     \<le> sint (peak_bytes_in_use (stats (fst (AllocateRaw cfg drv alignment num_bytes a)))) \<and>
   (sint (bytes_in_use (stats a)) \<le> sint (peak_bytes_in_use (stats a)) \<and>
    - (2 ^ 63) \<le> sint (bytes_in_use (stats a)) - uint (live_size a q) \<longrightarrow>
      sint (bytes_in_use (stats (DeallocateRaw cfg res q a)))
        \<le> sint (peak_bytes_in_use (stats (DeallocateRaw cfg res q a)))) \<and>
   peak_bytes_in_use (stats (DeallocateRaw cfg res q a)) = peak_bytes_in_use (stats a) \<and>
   peak_bytes_in_use (stats (ClearStats a)) = bytes_in_use (stats (ClearStats a)) \<and>
   bytes_in_use (stats (ClearStats a)) = bytes_in_use (stats a)"
proof (intro conjI impI)
  assume "GPUcudaMallocAsyncAllocator cfg env platform_gpu_id pool_size reserve_memory = Inr a0
      \<and> along cfg no_overflow cs a0"
  then have "bounded (run cfg cs a0)"
    using run_bounded [of a0 cfg cs]
      constructed_bounded [of cfg env platform_gpu_id pool_size reserve_memory a0]
    by simp
  then show "sint (bytes_in_use (stats (run cfg cs a0)))
        \<le> sint (peak_bytes_in_use (stats (run cfg cs a0)))"
    by (simp add: bounded_def)
next
  assume "pool_api cfg"
  then show
    "sint (bytes_in_use (stats (fst (AllocateRaw cfg (cudaSuccess, p) alignment num_bytes a))))
        \<le> sint (peak_bytes_in_use
                  (stats (fst (AllocateRaw cfg (cudaSuccess, p) alignment num_bytes a))))"
    by (simp add: AllocateRaw_success sint_max_int64)
next
  show "sint (peak_bytes_in_use (stats a))
     \<le> sint (peak_bytes_in_use (stats (fst (AllocateRaw cfg drv alignment num_bytes a))))"
  proof (cases "pool_api cfg \<and> fst drv = cudaSuccess")
    case True
    then have "drv = (cudaSuccess, snd drv)"
      by (cases drv) simp
    then have "stats (fst (AllocateRaw cfg drv alignment num_bytes a)) =
        stats (fst (AllocateRaw cfg (cudaSuccess, snd drv) alignment num_bytes a))"
      by simp
    with True show ?thesis
      by (simp add: AllocateRaw_success sint_max_int64)
  next
    case False
    then have "stats (fst (AllocateRaw cfg drv alignment num_bytes a)) = stats a"
      by (cases drv; cases "pool_api cfg")
         (auto simp add: AllocateRaw_not_compiled AllocateRaw_failure)
    then show ?thesis
      by simp
  qed
next
  assume "sint (bytes_in_use (stats a)) \<le> sint (peak_bytes_in_use (stats a)) \<and>
    - (2 ^ 63) \<le> sint (bytes_in_use (stats a)) - uint (live_size a q)"
  then show "sint (bytes_in_use (stats (DeallocateRaw cfg res q a)))
        \<le> sint (peak_bytes_in_use (stats (DeallocateRaw cfg res q a)))"
    using DeallocateRaw_below_peak [of a q cfg res] by blast
next
  show "peak_bytes_in_use (stats (DeallocateRaw cfg res q a)) = peak_bytes_in_use (stats a)"
    by (cases "pool_api cfg") (simp_all add: DeallocateRaw_fields DeallocateRaw_not_compiled)
next
  show "peak_bytes_in_use (stats (ClearStats a)) = bytes_in_use (stats (ClearStats a))"
    by (simp add: ClearStats_stats)
next
  show "bytes_in_use (stats (ClearStats a)) = bytes_in_use (stats a)"
    by (simp add: ClearStats_stats)
qed

theorem peak_bytes_in_use_bounds_witness:
  "GPUcudaMallocAsyncAllocator cuda_11_2 plain_env 0 4096 True = Inr prefilled \<and>
   along cuda_11_2 no_overflow scenario prefilled \<and>
   sint (bytes_in_use (stats (run cuda_11_2 scenario prefilled)))
     \<le> sint (peak_bytes_in_use (stats (run cuda_11_2 scenario prefilled))) \<and>
   along cuda_11_2 no_overflow rehanded prefilled \<and>
   sint (bytes_in_use (stats (run cuda_11_2 rehanded prefilled)))
     \<le> sint (peak_bytes_in_use (stats (run cuda_11_2 rehanded prefilled))) \<and>
   pool_api cuda_11_2 \<and>
   sint (bytes_in_use (stats (fst (AllocateRaw cuda_11_2 (cudaSuccess, 0x2000) 0 4096 one_live))))
     \<le> sint (peak_bytes_in_use
               (stats (fst (AllocateRaw cuda_11_2 (cudaSuccess, 0x2000) 0 4096 one_live)))) \<and>
   sint (bytes_in_use (stats one_live)) \<le> sint (peak_bytes_in_use (stats one_live)) \<and>
   - (2 ^ 63) \<le> sint (bytes_in_use (stats one_live)) - uint (live_size one_live 0x1000) \<and>
   sint (bytes_in_use (stats (DeallocateRaw cuda_11_2 2 0x1000 one_live)))
     \<le> sint (peak_bytes_in_use (stats (DeallocateRaw cuda_11_2 2 0x1000 one_live))) \<and>
   peak_bytes_in_use (stats (DeallocateRaw cuda_11_2 2 0x1000 one_live)) = 1024 \<and>
   peak_bytes_in_use (stats (ClearStats (DeallocateRaw cuda_11_2 2 0x1000 one_live))) = 0"
proof -
  note t = peak_bytes_in_use_bounds
    [of cuda_11_2 plain_env 0 4096 True prefilled scenario "0x2000" 0 4096 one_live
        "(cudaSuccess, 0x2000)" "0x1000" 2]
  note t' = peak_bytes_in_use_bounds
    [of cuda_11_2 plain_env 0 4096 True prefilled rehanded "0x2000" 0 4096 one_live
        "(cudaSuccess, 0x2000)" "0x1000" 2]
  note u = peak_bytes_in_use_bounds
    [of cuda_11_2 plain_env 0 4096 True prefilled scenario "0x2000" 0 4096
        "DeallocateRaw cuda_11_2 2 0x1000 one_live" "(cudaSuccess, 0x2000)" "0x1000" 2]
  have start: "sint (bytes_in_use (stats one_live)) \<le> sint (peak_bytes_in_use (stats one_live))"
    "- (2 ^ 63) \<le> sint (bytes_in_use (stats one_live)) - uint (live_size one_live 0x1000)"
    by (simp_all add: one_live_fields live_size_def)
  have "sint (bytes_in_use (stats (run cuda_11_2 scenario prefilled)))
     \<le> sint (peak_bytes_in_use (stats (run cuda_11_2 scenario prefilled)))"
    using t prefilled_constructed scenario_no_overflow by blast
  moreover have "sint (bytes_in_use (stats (run cuda_11_2 rehanded prefilled)))
     \<le> sint (peak_bytes_in_use (stats (run cuda_11_2 rehanded prefilled)))"
    using t' prefilled_constructed rehanded_no_overflow by blast
  moreover have
    "sint (bytes_in_use (stats (fst (AllocateRaw cuda_11_2 (cudaSuccess, 0x2000) 0 4096 one_live))))
     \<le> sint (peak_bytes_in_use
               (stats (fst (AllocateRaw cuda_11_2 (cudaSuccess, 0x2000) 0 4096 one_live))))"
    using t pool_api_cuda_11_2 by blast
  moreover have "sint (bytes_in_use (stats (DeallocateRaw cuda_11_2 2 0x1000 one_live)))
     \<le> sint (peak_bytes_in_use (stats (DeallocateRaw cuda_11_2 2 0x1000 one_live)))"
    using t start by blast
  moreover have "peak_bytes_in_use (stats (DeallocateRaw cuda_11_2 2 0x1000 one_live))
     = peak_bytes_in_use (stats one_live)"
    using t by blast
  moreover have "peak_bytes_in_use (stats (ClearStats (DeallocateRaw cuda_11_2 2 0x1000 one_live)))
     = bytes_in_use (stats (DeallocateRaw cuda_11_2 2 0x1000 one_live))"
    using u by simp
  ultimately show ?thesis
    using prefilled_constructed scenario_no_overflow rehanded_no_overflow pool_api_cuda_11_2 start
    by (simp add: one_live_fields DeallocateRaw_fields live_size_def)
qed

text \<open>
  The claim as it is written has the inequality after every operation. A request
  of \<open>2 ^ 63\<close> bytes that the pool grants makes \<open>bytes_in_use\<close> negative; one more
  byte is allocated and the first address released: \<open>bytes_in_use\<close> is 1 and the
  peak is still 0.
\<close>

theorem peak_bytes_in_use_overflow_counterexample:
  "GPUcudaMallocAsyncAllocator cuda_11_2 plain_env 0 4096 True = Inr prefilled \<and>
   bytes_in_use (stats (run cuda_11_2 overflowing prefilled)) = 1 \<and>
   peak_bytes_in_use (stats (run cuda_11_2 overflowing prefilled)) = 0 \<and>
   sint (peak_bytes_in_use (stats (run cuda_11_2 overflowing prefilled)))
     < sint (bytes_in_use (stats (run cuda_11_2 overflowing prefilled)))"
  by (simp add: prefilled_constructed overflowing_fields)

subsection \<open>A device that reports no support for memory pools\<close>

text \<open>
  C9, as the code has it. The constructor only logs the report that the device
  does not support memory pools; \<open>AllocateRaw\<close> never looks at it and asks the pool
  each time. When the constructor has returned on such a device and the pool
  allocation of every later call fails, every \<open>AllocateRaw\<close> returns the null
  pointer, nothing is logged at \<^verbatim>\<open>FATAL\<close>, the map stays empty and \<open>num_allocs\<close>,
  \<open>bytes_in_use\<close>, \<open>peak_bytes_in_use\<close> and \<open>largest_alloc_size\<close> stay zero, through
  any calls of \<open>DeallocateRaw\<close>, \<open>ClearStats\<close> and \<open>GetStats\<close> in between;
  \<open>bytes_limit\<close> holds the pool size the constructor was given.
\<close>

theorem unsupported_device_failing_pool:
  assumes "GPUcudaMallocAsyncAllocator cfg env platform_gpu_id pool_size reserve_memory = Inr a"
    and "cuda_malloc_async_supported env = 0"
    and "list_all (\<lambda>c. \<not> pool_gives c) cs"
  shows "list_all (\<lambda>r. r = nullptr) (returned cfg cs a) \<and>
     stats (run cfg cs a) =
       \<lparr>num_allocs = 0, bytes_in_use = 0, peak_bytes_in_use = 0, largest_alloc_size = 0,
        bytes_limit = (if CUDA_VERSION cfg < 11020 then 0 else pool_size)\<rparr> \<and>
     size_map (run cfg cs a) = Map.empty \<and>
     Log FATAL \<notin> set (issued a (run cfg cs a))"
proof -
  note r = run_idle [OF constructed_idle [OF assms(1)] assms(3), of cfg]
  have "bytes_limit (stats (run cfg cs a)) = (if CUDA_VERSION cfg < 11020 then 0 else pool_size)"
    using r constructed_fields(1) [OF assms(1)] by simp
  with r idle_stats [of "run cfg cs a"] have "stats (run cfg cs a) =
       \<lparr>num_allocs = 0, bytes_in_use = 0, peak_bytes_in_use = 0, largest_alloc_size = 0,
        bytes_limit = (if CUDA_VERSION cfg < 11020 then 0 else pool_size)\<rparr>"
    by simp
  moreover have "size_map (run cfg cs a) = Map.empty"
    using r by (simp add: idle_def)
  ultimately show ?thesis
    using r run_logs_no_FATAL [of a cfg cs] by simp
qed

theorem unsupported_device_failing_pool_witness:
  "GPUcudaMallocAsyncAllocator cuda_11_2 unsupported_env 0 1024 True = Inr unsupported_device \<and>
   cuda_malloc_async_supported unsupported_env = 0 \<and>
   list_all (\<lambda>c. \<not> pool_gives c)
     [Alloc 0 256 801 0, Alloc 64 512 2 0x9000, Free nullptr 801, Clear, Get] \<and>
   returned cuda_11_2 [Alloc 0 256 801 0, Alloc 64 512 2 0x9000, Free nullptr 801, Clear, Get]
     unsupported_device = [nullptr, nullptr] \<and>
   stats (run cuda_11_2 [Alloc 0 256 801 0, Alloc 64 512 2 0x9000, Free nullptr 801, Clear, Get]
            unsupported_device) =
     \<lparr>num_allocs = 0, bytes_in_use = 0, peak_bytes_in_use = 0, largest_alloc_size = 0,
      bytes_limit = 1024\<rparr> \<and>
   size_map (run cuda_11_2 [Alloc 0 256 801 0, Alloc 64 512 2 0x9000, Free nullptr 801, Clear, Get]
               unsupported_device) = Map.empty"
proof -
  let ?cs = "[Alloc 0 256 801 0, Alloc 64 512 2 0x9000, Free nullptr 801, Clear, Get]"
  have unsupported: "cuda_malloc_async_supported unsupported_env = 0"
    by (simp add: unsupported_env_def)
  have failing: "list_all (\<lambda>c. \<not> pool_gives c) ?cs"
    by simp
  note t = unsupported_device_failing_pool [OF unsupported_device_constructed unsupported failing]
  have "returned cuda_11_2 ?cs unsupported_device = [nullptr, nullptr]"
    using t by (simp add: AllocateRaw_failure_keeps_fields)
  then show ?thesis
    using t unsupported failing unsupported_device_constructed
    by (simp add: cuda_11_2_def)
qed

text \<open>
  The claim as it is written fails twice on the device of \<open>unsupported_env\<close>. The
  statistics record is not all zero after construction: \<open>bytes_limit\<close> is the pool
  size. And what \<open>AllocateRaw\<close> returns is decided by the answer of the pool alone:
  should the pool answer with success, the call returns the address and counts the
  allocation.
\<close>

theorem unsupported_device_counterexample:
  "GPUcudaMallocAsyncAllocator cuda_11_2 unsupported_env 0 1024 True = Inr unsupported_device \<and>
   cuda_malloc_async_supported unsupported_env = 0 \<and>
   bytes_limit (stats unsupported_device) = 1024 \<and>
   snd (AllocateRaw cuda_11_2 (cudaSuccess, 0x7000) 0 256 unsupported_device) = 0x7000 \<and>
   num_allocs (stats (fst (AllocateRaw cuda_11_2 (cudaSuccess, 0x7000) 0 256 unsupported_device)))
     = 1 \<and>
   bytes_in_use (stats (fst (AllocateRaw cuda_11_2 (cudaSuccess, 0x7000) 0 256 unsupported_device)))
     = 256"
proof -
  have limit: "bytes_limit (stats unsupported_device) = 1024"
    and zero: "num_allocs (stats unsupported_device) = 0"
      "bytes_in_use (stats unsupported_device) = 0"
    using constructed_fields(1) [OF unsupported_device_constructed]
    by (simp_all add: cuda_11_2_def)
  have unsupported: "cuda_malloc_async_supported unsupported_env = 0"
    by (simp add: unsupported_env_def)
  show ?thesis
    using limit zero unsupported
    by (simp add: unsupported_device_constructed AllocateRaw_success pool_api_cuda_11_2)
qed

subsection \<open>The lock\<close>

text \<open>
  C8 says that AllocateRaw and DeallocateRaw change the statistics record and the
  size-tracking map while they hold the mutex that GetStats and ClearStats take,
  and that they do not hold it during the driver call. The traces of the four
  member functions show what the code does: a successful \<open>AllocateRaw\<close> makes its
  five assignments, and a \<open>DeallocateRaw\<close> of a tracked address its two, with the
  lock not taken at all; \<open>ClearStats\<close> makes its three between taking and releasing
  the lock, and \<open>GetStats\<close> takes it to read. No driver call is made under the lock.
\<close>

theorem bookkeeping_without_lock:
  "issued allocator_init (fst (AllocateRaw cuda_11_2 (cudaSuccess, 0x1000) 0 1024 allocator_init))
     = [Driver cudaMallocFromPoolAsync, Write Stats, Write Stats, Write Stats, Write Stats,
        Write SizeMap] \<and>
   unguarded_writes False
     (issued allocator_init
        (fst (AllocateRaw cuda_11_2 (cudaSuccess, 0x1000) 0 1024 allocator_init))) = 5 \<and>
   issued one_live (DeallocateRaw cuda_11_2 cudaSuccess 0x1000 one_live)
     = [Driver cudaFreeAsync, Write Stats, Write SizeMap] \<and>
   unguarded_writes False (issued one_live (DeallocateRaw cuda_11_2 cudaSuccess 0x1000 one_live))
     = 2 \<and>
   issued one_live (ClearStats one_live)
     = [Acquire, Write Stats, Write Stats, Write Stats, Release] \<and>
   unguarded_writes False (issued one_live (ClearStats one_live)) = 0 \<and>
   issued one_live (fst (GetStats one_live)) = [Acquire, Release] \<and>
   driver_calls_under_lock False
     (issued allocator_init
        (fst (AllocateRaw cuda_11_2 (cudaSuccess, 0x1000) 0 1024 allocator_init))) = 0 \<and>
   driver_calls_under_lock False
     (issued one_live (DeallocateRaw cuda_11_2 cudaSuccess 0x1000 one_live)) = 0"
  by (simp add: issued_append AllocateRaw_success DeallocateRaw_fields ClearStats_events
        GetStats_fields pool_api_cuda_11_2 one_live_fields)

end
